theory Spec2Isabelle
  imports Complex_Main "HOL-Library.AList"
begin

section \<open>The currency converter endpoint of app.py\<close>

text \<open>
  The program is one Flask view, \<open>convert_currency\<close>, with two helpers,
  \<open>validation_check\<close> and \<open>get_conversion_rate\<close>. Everything outside the file is
  made explicit: the query parameters are an argument, the rate provider and the
  floating-point operations are fields of an environment record, an exception is the
  left injection of a sum, and the outbound calls a request makes are returned as a list.
\<close>

subsection \<open>Strings\<close>

text \<open>
  A parameter value is a Python \<open>str\<close>; the model holds its characters as 8-bit
  \<open>char\<close>s (code points below 256). \<open>upper\<close> is \<open>str.upper\<close> on the letters
  \<open>a\<close> to \<open>z\<close> and leaves every other character in place. Python may change a
  character above 127, but no string holding such a code point below 256 has an
  upper-case form among the supported codes, so membership of the result in
  \<open>VALID_COUNTRIES\<close> is decided as in Python.
\<close>

definition upper_char :: "char \<Rightarrow> char" where
  "upper_char c =
     (let n = (of_char c :: nat) in if 97 \<le> n \<and> n \<le> 122 then char_of (n - 32) else c)"

definition lower_char :: "char \<Rightarrow> char" where
  "lower_char c =
     (let n = (of_char c :: nat) in if 65 \<le> n \<and> n \<le> 90 then char_of (n + 32) else c)"

definition upper :: "string \<Rightarrow> string" where
  "upper s = map upper_char s"

subsection \<open>Query parameters\<close>

text \<open>
  \<open>request.args\<close> is a multi-dict: the pairs of the query string in order, a key
  possibly more than once. \<open>args.get(key, default)\<close> is the first value of the key, or
  the default when the key is absent.
\<close>

type_synonym args = "(string \<times> string) list"

definition args_get :: "args \<Rightarrow> string \<Rightarrow> string option" where
  "args_get a k = map_of a k"

text \<open>\<open>args.get('amount', 1)\<close> is a string of the caller's or the integer 1.\<close>

datatype pyarg = PStr string | PInt int

text \<open>The three reads \<open>convert_currency\<close> starts with.\<close>

definition base_currency_of :: "args \<Rightarrow> string" where
  "base_currency_of args = (case args_get args ''base-currency'' of None \<Rightarrow> [] | Some v \<Rightarrow> v)"

definition to_currency_of :: "args \<Rightarrow> string" where
  "to_currency_of args = (case args_get args ''to-currency'' of None \<Rightarrow> [] | Some v \<Rightarrow> v)"

definition base_amount_of :: "args \<Rightarrow> pyarg" where
  "base_amount_of args = (case args_get args ''amount'' of None \<Rightarrow> PInt 1 | Some v \<Rightarrow> PStr v)"

subsection \<open>Python's \<open>float\<close> on a string\<close>

text \<open>
  \<open>float(s)\<close> raises \<open>ValueError\<close> unless \<open>s\<close> is a float literal: white space
  around it is dropped, then an optional sign and either digits with an optional point
  and an optional exponent, or \<open>inf\<close>, \<open>infinity\<close> or \<open>nan\<close> in any case. One
  underscore may stand between two digits. A non-ASCII space counts as a space, any
  other character above 126 spoils the literal. \<open>float_syntax\<close> decides that; the value
  of a literal is a field of the environment.
\<close>

definition is_digit :: "char \<Rightarrow> bool" where
  "is_digit c = (let n = (of_char c :: nat) in 48 \<le> n \<and> n \<le> 57)"

definition is_space :: "char \<Rightarrow> bool" where
  "is_space c = (let n = (of_char c :: nat) in (9 \<le> n \<and> n \<le> 13) \<or> n = 32)"

definition to_ascii :: "char \<Rightarrow> char" where
  "to_ascii c =
     (let n = (of_char c :: nat) in
      if n < 127 then c else if n = 133 \<or> n = 160 then CHR '' '' else CHR ''?'')"

fun underscores_ok :: "char \<Rightarrow> string \<Rightarrow> bool" where
  "underscores_ok prev [] = (prev \<noteq> CHR ''_'')"
| "underscores_ok prev (c # cs) =
     ((if c = CHR ''_'' then is_digit prev
       else if prev = CHR ''_'' then is_digit c else True) \<and> underscores_ok c cs)"

definition strip :: "string \<Rightarrow> string" where
  "strip s = rev (dropWhile is_space (rev (dropWhile is_space s)))"

definition drop_sign :: "string \<Rightarrow> string" where
  "drop_sign s =
     (case s of [] \<Rightarrow> []
      | c # cs \<Rightarrow> if c = CHR ''+'' \<or> c = CHR ''-'' then cs else s)"

definition is_exponent :: "string \<Rightarrow> bool" where
  "is_exponent s =
     (case s of [] \<Rightarrow> False
      | c # cs \<Rightarrow> (c = CHR ''e'' \<or> c = CHR ''E'') \<and>
          (let ds = drop_sign cs in ds \<noteq> [] \<and> list_all is_digit ds))"

definition is_number :: "string \<Rightarrow> bool" where
  "is_number s =
     (let s1 = drop_sign s;
          ip = takeWhile is_digit s1;
          r1 = dropWhile is_digit s1;
          point = (r1 \<noteq> [] \<and> hd r1 = CHR ''.'');
          fp = (if point then takeWhile is_digit (tl r1) else []);
          r2 = (if point then dropWhile is_digit (tl r1) else r1)
      in (ip \<noteq> [] \<or> fp \<noteq> []) \<and> (r2 = [] \<or> is_exponent r2))"

definition is_inf_or_nan :: "string \<Rightarrow> bool" where
  "is_inf_or_nan s =
     (map lower_char (drop_sign s) \<in> {''inf'', ''infinity'', ''nan''})"

definition float_syntax :: "string \<Rightarrow> bool" where
  "float_syntax s =
     (let a = map to_ascii s;
          u = filter (\<lambda>c. c \<noteq> CHR ''_'') a;
          t = strip u
      in (if CHR ''_'' \<in> set a then underscores_ok (CHR 0x00) a else True) \<and>
         t \<noteq> [] \<and> (is_number t \<or> is_inf_or_nan t))"

subsection \<open>Exceptions, JSON values and the environment\<close>

text \<open>The exceptions the three functions can end with.\<close>

datatype py_error =
  RequestException | JSONDecodeError | KeyError | TypeError | ValueError | OverflowError

fun bind :: "py_error + 'a \<Rightarrow> ('a \<Rightarrow> py_error + 'b) \<Rightarrow> py_error + 'b" where
  "bind (Inl e) f = Inl e"
| "bind (Inr x) f = f x"

text \<open>
  What \<open>r.json()\<close> returns: a decoded JSON value, its numbers Python ints or floats,
  an object the items of a dict. The float type \<open>'f\<close> is left open.
\<close>

datatype 'f json =
  JNull | JBool bool | JInt int | JFloat 'f | JStr string
  | JArr "'f json list" | JObj "(string \<times> 'f json) list"

text \<open>
  \<open>v[key]\<close> with a string key: a dict looks the key up and raises \<open>KeyError\<close> when
  it is absent; a list, a string, a number, a boolean or \<open>None\<close> raises \<open>TypeError\<close>.
\<close>

fun subscript :: "'f json \<Rightarrow> string \<Rightarrow> py_error + 'f json" where
  "subscript (JObj items) k =
     (case map_of items k of None \<Rightarrow> Inl KeyError | Some v \<Rightarrow> Inr v)"
| "subscript v k = Inl TypeError"

text \<open>
  An outbound call of \<open>requests.get(url, params=params)\<close>. A parameter is a string or
  a list of strings; on the wire a list gives one pair for each of its elements.
\<close>

datatype param = Single string | Multiple "string list"

record http_request =
  http_method :: string
  url :: string
  params :: "(string \<times> param) list"

fun encode_param :: "string \<times> param \<Rightarrow> (string \<times> string) list" where
  "encode_param (k, Single v) = [(k, v)]"
| "encode_param (k, Multiple vs) = map (\<lambda>v. (k, v)) vs"

definition query_string :: "http_request \<Rightarrow> (string \<times> string) list" where
  "query_string req = concat (map encode_param (params req))"

text \<open>
  The answer of the provider: its status code, and its body decoded as JSON
  (\<open>None\<close> when the body is not JSON, where \<open>r.json()\<close> raises).
\<close>

record 'f upstream =
  status_code :: nat
  json_body :: "'f json option"

text \<open>
  The environment of a request: the API key of the module \<open>secrets\<close> (not part of the
  repository), \<open>requests.get\<close> (an exception when the provider cannot be reached),
  and the floating-point operations the code uses: the value of a float literal, the
  float nearest to an int, the product, and \<open>round(x, 2)\<close>.
\<close>

record 'f env =
  CURRENCYAPI_APIKEY :: string
  requests_get :: "http_request \<Rightarrow> py_error + 'f upstream"
  float_value :: "string \<Rightarrow> 'f"
  float_of_int :: "int \<Rightarrow> 'f"
  float_mul :: "'f \<Rightarrow> 'f \<Rightarrow> 'f"
  float_round2 :: "'f \<Rightarrow> 'f"

text \<open>
  \<open>float(v)\<close>: a string must be a float literal (\<open>ValueError\<close> otherwise); an int
  must round to a finite double (\<open>OverflowError\<close> otherwise).
\<close>

definition py_float :: "'f env \<Rightarrow> pyarg \<Rightarrow> py_error + 'f" where
  "py_float env v =
     (case v of
        PStr s \<Rightarrow> if float_syntax s then Inr (float_value env s) else Inl ValueError
      | PInt i \<Rightarrow> if \<bar>i\<bar> < 2 ^ 1024 - 2 ^ 970 then Inr (float_of_int env i)
                  else Inl OverflowError)"

text \<open>
  \<open>rate * x\<close> for a float \<open>x\<close>: a float rate is multiplied; an int or a boolean
  rate is converted to a float first; a string, a list, a dict or \<open>None\<close> raises
  \<open>TypeError\<close>.
\<close>

fun py_mul :: "'f env \<Rightarrow> 'f json \<Rightarrow> 'f \<Rightarrow> py_error + 'f" where
  "py_mul env (JFloat r) x = Inr (float_mul env r x)"
| "py_mul env (JInt i) x = bind (py_float env (PInt i)) (\<lambda>r. Inr (float_mul env r x))"
| "py_mul env (JBool b) x =
     bind (py_float env (PInt (if b then 1 else 0))) (\<lambda>r. Inr (float_mul env r x))"
| "py_mul env v x = Inl TypeError"

subsection \<open>Responses\<close>

text \<open>
  A value of a response dict, and a dict as its items in insertion order.
  A view returns a dict, which Flask serialises and sends with status 200, or a pair
  of a serialised body and a status. \<open>WithStatus d s\<close> stands for the pair
  \<open>(jsonify(d), s)\<close>: it keeps the dict \<open>d\<close> that \<open>jsonify\<close> is given. A
  \<open>response\<close> likewise keeps the dict its body is made from; the serialisation
  itself is \<open>jsonify\<close> below, which \<open>served\<close> applies to the body of every response.
\<close>

datatype 'f pyval = VStr string | VArgs args | VJson "'f json" | VFloat 'f

type_synonym 'f pydict = "(string \<times> 'f pyval) list"

datatype 'f view_result = Dict "'f pydict" | WithStatus "'f pydict" nat

record 'f response =
  status :: nat
  body :: "'f pydict"

fun make_response :: "'f view_result \<Rightarrow> 'f response" where
  "make_response (Dict d) = \<lparr>status = 200, body = d\<rparr>"
| "make_response (WithStatus d s) = \<lparr>status = s, body = d\<rparr>"

subsection \<open>validation_check\<close>

definition VALID_COUNTRIES :: "string set" where
  "VALID_COUNTRIES = set [''USD'', ''GBP'', ''EUR'']"

definition currency_error :: "args \<Rightarrow> 'f pydict" where
  "currency_error user_input =
     [(''error'', VStr ''Invalid or missing query parameters''),
      (''notes'', VStr (''Query parameters, base-currency and to-currency, are required. '' @
         ''Values must be valid ISO 4217 country codes. '' @
         ''Only USD, GBP, and EUR are currently supported.'')),
      (''user_input'', VArgs user_input)]"

definition amount_error :: "args \<Rightarrow> 'f pydict" where
  "amount_error user_input =
     [(''error'', VStr ''Invalid amount passed in''),
      (''notes'', VStr ''Make sure amount is a valid number.''),
      (''user_input'', VArgs user_input)]"

text \<open>
  The result is \<open>None\<close> for the empty tuple (the request is valid), or
  \<open>(jsonify(error_response), 400)\<close>, written \<open>WithStatus error_response 400\<close>.
  Only \<open>ValueError\<close> is caught.
\<close>

definition validation_check ::
  "'f env \<Rightarrow> string \<Rightarrow> string \<Rightarrow> pyarg \<Rightarrow> args \<Rightarrow> py_error + 'f view_result option" where
  "validation_check env base_currency to_currency base_amount user_input =
     (if upper base_currency \<notin> VALID_COUNTRIES \<or> upper to_currency \<notin> VALID_COUNTRIES
      then Inr (Some (WithStatus (currency_error user_input) 400))
      else case py_float env base_amount of
             Inl e \<Rightarrow> if e = ValueError
                      then Inr (Some (WithStatus (amount_error user_input) 400))
                      else Inl e
           | Inr x \<Rightarrow> Inr None)"

subsection \<open>get_conversion_rate\<close>

text \<open>The call to the provider, and \<open>body['data'][code]['value']\<close>.\<close>

definition provider_call :: "'f env \<Rightarrow> string \<Rightarrow> string \<Rightarrow> http_request" where
  "provider_call env base_currency to_currency =
     (let endpoint = ''https://api.currencyapi.com/v3/latest'';
          params = [(''apikey'', Single (CURRENCYAPI_APIKEY env)),
                    (''base_currency'', Single (upper base_currency)),
                    (''currencies'', Multiple [upper to_currency])]
      in \<lparr>http_method = ''GET'', url = endpoint, params = params\<rparr>)"

definition lookup_rate :: "'f json \<Rightarrow> string \<Rightarrow> py_error + 'f json" where
  "lookup_rate j code =
     bind (subscript j ''data'') (\<lambda>d. bind (subscript d code) (\<lambda>c. subscript c ''value''))"

text \<open>The result, and the outbound calls made.\<close>

definition get_conversion_rate ::
  "'f env \<Rightarrow> string \<Rightarrow> string \<Rightarrow> (py_error + 'f json) \<times> http_request list" where
  "get_conversion_rate env base_currency to_currency =
     (let call = provider_call env base_currency to_currency
      in (bind (requests_get env call) (\<lambda>r.
            case json_body r of None \<Rightarrow> Inl JSONDecodeError
            | Some j \<Rightarrow> lookup_rate j (upper to_currency)),
          [call]))"

subsection \<open>convert_currency\<close>

text \<open>
  The view: what it returns (or the exception it ends with), and the outbound calls
  made while it ran. \<open>args.get('amount')\<close> is true for a non-empty string.
\<close>

definition convert_currency ::
  "'f env \<Rightarrow> args \<Rightarrow> (py_error + 'f view_result) \<times> http_request list" where
  "convert_currency env args =
     (let base_currency = base_currency_of args;
          to_currency = to_currency_of args;
          base_amount = base_amount_of args
      in case validation_check env base_currency to_currency base_amount args of
           Inl e \<Rightarrow> (Inl e, [])
         | Inr (Some validation_response) \<Rightarrow> (Inr validation_response, [])
         | Inr None \<Rightarrow>
             (case get_conversion_rate env base_currency to_currency of
                (Inl e, calls) \<Rightarrow> (Inl e, calls)
              | (Inr conversion_rate, calls) \<Rightarrow>
                  (let response = [(''conversion_rate'', VJson conversion_rate),
                                   (''user_input'', VArgs args)]
                   in if (case args_get args ''amount'' of None \<Rightarrow> False | Some a \<Rightarrow> a \<noteq> [])
                      then
                        (bind (py_float env base_amount) (\<lambda>x.
                         bind (py_mul env conversion_rate x) (\<lambda>converted_amount.
                         Inr (Dict (AList.update ''converted_amount''
                                 (VFloat (float_round2 env converted_amount)) response)))),
                         calls)
                      else (Inr (Dict response), calls))))"

text \<open>The endpoint as a client sees it: the response Flask sends, or the exception.\<close>

definition endpoint :: "'f env \<Rightarrow> args \<Rightarrow> py_error + 'f response" where
  "endpoint env args =
     (case fst (convert_currency env args) of
        Inl e \<Rightarrow> Inl e
      | Inr v \<Rightarrow> Inr (make_response v))"

definition outbound_calls :: "'f env \<Rightarrow> args \<Rightarrow> http_request list" where
  "outbound_calls env args = snd (convert_currency env args)"

subsection \<open>The response on the wire\<close>

text \<open>
  \<open>jsonify\<close>, which \<open>validation_check\<close> calls on its error dict and Flask on the
  dict that \<open>convert_currency\<close> returns, writes a dict as a JSON object: a string as
  a JSON string, a float as a number, a value decoded from the provider's body as
  itself, and \<open>request.args\<close> as an object of its \<open>items()\<close>. The items of a
  multi-dict are its keys, each once, with the first of the values the key has. The
  order in which the items of an object are written is not modelled.
\<close>

definition multidict_items :: "args \<Rightarrow> args" where
  "multidict_items a = AList.clearjunk a"

fun to_json :: "'f pyval \<Rightarrow> 'f json" where
  "to_json (VStr s) = JStr s"
| "to_json (VArgs a) = JObj (map (\<lambda>(k, v). (k, JStr v)) (multidict_items a))"
| "to_json (VJson j) = j"
| "to_json (VFloat x) = JFloat x"

definition jsonify :: "'f pydict \<Rightarrow> 'f json" where
  "jsonify d = JObj (map (\<lambda>(k, v). (k, to_json v)) d)"

record 'f wire_response =
  wire_status :: nat
  wire_body :: "'f json"

text \<open>What a client receives: the status and the serialised body, or the exception.\<close>

definition served :: "'f env \<Rightarrow> args \<Rightarrow> py_error + 'f wire_response" where
  "served env args =
     (case endpoint env args of
        Inl e \<Rightarrow> Inl e
      | Inr r \<Rightarrow> Inr \<lparr>wire_status = status r, wire_body = jsonify (body r)\<rparr>)"

text \<open>The value of a field of a JSON object.\<close>

fun json_field :: "'f json \<Rightarrow> string \<Rightarrow> 'f json option" where
  "json_field (JObj items) k = map_of items k"
| "json_field v k = None"

subsection \<open>Observations and example environments\<close>

text \<open>A result of the endpoint with the echoed \<open>user_input\<close> left out of the body.\<close>

definition without_user_input :: "py_error + 'f response \<Rightarrow> py_error + 'f response" where
  "without_user_input res =
     (case res of
        Inl e \<Rightarrow> Inl e
      | Inr r \<Rightarrow> Inr (r\<lparr>body := AList.delete ''user_input'' (body r)\<rparr>))"

text \<open>
  An environment for the examples. Floats are read as real numbers, \<open>float_value\<close>
  is right for a literal of digits only, and the provider answers as the example in
  \<open>get_conversion_rate\<close> does, for the currency asked.
\<close>

definition example_answer :: "nat \<Rightarrow> http_request \<Rightarrow> py_error + real upstream" where
  "example_answer code q =
     (case map_of (query_string q) ''currencies'' of
        None \<Rightarrow> Inr \<lparr>status_code = 422,
                      json_body = Some (JObj [(''message'', JStr ''Validation error'')])\<rparr>
      | Some c \<Rightarrow> Inr \<lparr>status_code = code,
                      json_body = Some (JObj
                        [(''meta'', JObj [(''last_updated_at'', JStr ''2022-11-20T23:59:59Z'')]),
                         (''data'', JObj [(c, JObj [(''code'', JStr c),
                                                   (''value'', JFloat (841409 / 1000000))])])])\<rparr>)"

definition example_env :: "real env" where
  "example_env =
     \<lparr>CURRENCYAPI_APIKEY = ''key'',
      requests_get = example_answer 200,
      float_value = (\<lambda>s. of_nat (foldl (\<lambda>n c. 10 * n + (of_char c - 48)) 0 s)),
      float_of_int = of_int,
      float_mul = (*),
      float_round2 = (\<lambda>x. of_int \<lfloor>x * 100 + 1 / 2\<rfloor> / 100)\<rparr>"

text \<open>The same, the provider answering every call with status 500.\<close>

definition error_status_env :: "real env" where
  "error_status_env = example_env\<lparr>requests_get := example_answer 500\<rparr>"

text \<open>The same, the provider giving one fixed result to every call.\<close>

definition answering :: "py_error + real upstream \<Rightarrow> real env" where
  "answering r = example_env\<lparr>requests_get := (\<lambda>q. r)\<rparr>"

section \<open>Properties\<close>

subsection \<open>Auxiliary facts\<close>

lemma upper_valid: "c \<in> VALID_COUNTRIES \<Longrightarrow> upper c = c"
  by (auto simp: VALID_COUNTRIES_def upper_def upper_char_def)

lemma float_syntax_empty: "\<not> float_syntax []"
  by (simp add: float_syntax_def strip_def)

lemma py_float_default: "py_float env (PInt 1) = Inr (float_of_int env 1)"
  by (simp add: py_float_def)

lemma of_char_lower_char:
  "(of_char (lower_char c) :: nat) =
     (if 65 \<le> (of_char c :: nat) \<and> (of_char c :: nat) \<le> 90 then of_char c + 32 else of_char c)"
  by (simp add: lower_char_def Let_def)

lemma of_char_upper_char:
  "(of_char (upper_char c) :: nat) =
     (if 97 \<le> (of_char c :: nat) \<and> (of_char c :: nat) \<le> 122 then of_char c - 32 else of_char c)"
  by (auto simp add: upper_char_def Let_def)

lemma lower_upper_char:
  assumes "lower_char c = lower_char d"
  shows "upper_char c = upper_char d"
proof -
  have "(of_char (lower_char c) :: nat) = of_char (lower_char d)"
    using assms by simp
  then have "(of_char (upper_char c) :: nat) = of_char (upper_char d)"
    unfolding of_char_lower_char of_char_upper_char by (auto split: if_splits)
  then show ?thesis
    by simp
qed

lemma lower_upper:
  "map lower_char s = map lower_char s' \<Longrightarrow> upper s = upper s'"
proof (induction s arbitrary: s')
  case Nil
  then show ?case by (simp add: upper_def)
next
  case (Cons c s)
  then obtain d r where s': "s' = d # r"
    by (cases s') auto
  with Cons.prems have "lower_char c = lower_char d" "map lower_char s = map lower_char r"
    by auto
  then show ?case
    using Cons.IH [of r] lower_upper_char [of c d] by (simp add: upper_def s')
qed

lemma bind_Inr: "bind m f = Inr y \<longleftrightarrow> (\<exists>x. m = Inr x \<and> f x = Inr y)"
  by (cases m) simp_all

lemma validation_check_currency:
  "upper b \<notin> VALID_COUNTRIES \<or> upper t \<notin> VALID_COUNTRIES \<Longrightarrow>
   validation_check env b t m ui = Inr (Some (WithStatus (currency_error ui) 400))"
  by (simp add: validation_check_def)

lemma validation_check_amount:
  "upper b \<in> VALID_COUNTRIES \<Longrightarrow> upper t \<in> VALID_COUNTRIES \<Longrightarrow> \<not> float_syntax a \<Longrightarrow>
   validation_check env b t (PStr a) ui = Inr (Some (WithStatus (amount_error ui) 400))"
  by (simp add: validation_check_def py_float_def)

lemma validation_check_ok_str:
  "upper b \<in> VALID_COUNTRIES \<Longrightarrow> upper t \<in> VALID_COUNTRIES \<Longrightarrow> float_syntax a \<Longrightarrow>
   validation_check env b t (PStr a) ui = Inr None"
  by (simp add: validation_check_def py_float_def)

lemma validation_check_ok_default:
  "upper b \<in> VALID_COUNTRIES \<Longrightarrow> upper t \<in> VALID_COUNTRIES \<Longrightarrow>
   validation_check env b t (PInt 1) ui = Inr None"
  by (simp add: validation_check_def py_float_def)

lemma validation_check_upper:
  "upper b' = upper b \<Longrightarrow> upper t' = upper t \<Longrightarrow>
   validation_check env b' t' m ui = validation_check env b t m ui"
  by (simp add: validation_check_def)

lemma validation_check_None:
  "validation_check env b t m ui = Inr None \<Longrightarrow> validation_check env b t m ui' = Inr None"
  by (auto simp: validation_check_def split: if_splits sum.splits)

lemma validation_check_Inl:
  "validation_check env b t m ui = Inl e \<Longrightarrow> validation_check env b t m ui' = Inl e"
  by (auto simp: validation_check_def split: if_splits sum.splits)

lemma validation_check_Some:
  assumes "validation_check env b t m ui = Inr (Some w)"
  shows "(w = WithStatus (currency_error ui) 400 \<and>
          validation_check env b t m ui' = Inr (Some (WithStatus (currency_error ui') 400))) \<or>
         (w = WithStatus (amount_error ui) 400 \<and>
          validation_check env b t m ui' = Inr (Some (WithStatus (amount_error ui') 400)))"
  using assms by (auto simp: validation_check_def split: if_splits sum.splits)

lemma lookup_rate_value:
  "map_of items ''data'' = Some (JObj ditems) \<Longrightarrow> map_of ditems code = Some (JObj citems) \<Longrightarrow>
   map_of citems ''value'' = Some v \<Longrightarrow> lookup_rate (JObj items) code = Inr v"
  by (simp add: lookup_rate_def)

lemma lookup_rate_Inr:
  assumes "lookup_rate j code = Inr v"
  shows "\<exists>items ditems citems. j = JObj items \<and> map_of items ''data'' = Some (JObj ditems) \<and>
           map_of ditems code = Some (JObj citems) \<and> map_of citems ''value'' = Some v"
proof -
  obtain items where j: "j = JObj items"
    using assms by (cases j) (simp_all add: lookup_rate_def)
  obtain d where d: "map_of items ''data'' = Some d"
    using assms j by (cases "map_of items ''data''") (simp_all add: lookup_rate_def)
  obtain ditems where di: "d = JObj ditems"
    using assms j d by (cases d) (simp_all add: lookup_rate_def)
  obtain c where c: "map_of ditems code = Some c"
    using assms j d di by (cases "map_of ditems code") (simp_all add: lookup_rate_def)
  obtain citems where ci: "c = JObj citems"
    using assms j d di c by (cases c) (simp_all add: lookup_rate_def)
  have "map_of citems ''value'' = Some v"
    using assms j d di c ci by (cases "map_of citems ''value''") (simp_all add: lookup_rate_def)
  with j d di c ci show ?thesis by blast
qed

lemma lookup_rate_fails:
  assumes "\<not> (\<exists>items ditems citems v. j = JObj items \<and>
               map_of items ''data'' = Some (JObj ditems) \<and>
               map_of ditems code = Some (JObj citems) \<and> map_of citems ''value'' = Some v)"
  shows "\<exists>e. lookup_rate j code = Inl e"
proof (cases "lookup_rate j code")
  case (Inl e)
  then show ?thesis by simp
next
  case (Inr v)
  from lookup_rate_Inr [OF Inr] assms show ?thesis by blast
qed

lemma get_conversion_rate_calls:
  "snd (get_conversion_rate env b t) = [provider_call env b t]"
  by (simp add: get_conversion_rate_def Let_def)

lemma get_conversion_rate_fst:
  "fst (get_conversion_rate env b t) =
     bind (requests_get env (provider_call env b t)) (\<lambda>r.
       case json_body r of None \<Rightarrow> Inl JSONDecodeError | Some j \<Rightarrow> lookup_rate j (upper t))"
  by (simp add: get_conversion_rate_def Let_def)

lemma get_conversion_rate_upper:
  "upper b' = upper b \<Longrightarrow> upper t' = upper t \<Longrightarrow>
   get_conversion_rate env b' t' = get_conversion_rate env b t"
  by (simp add: get_conversion_rate_def provider_call_def cong: option.case_cong)

lemma convert_currency_rejected:
  "validation_check env (base_currency_of args) (to_currency_of args) (base_amount_of args) args
     = Inr (Some v) \<Longrightarrow>
   convert_currency env args = (Inr v, [])"
  by (simp add: convert_currency_def)

lemma convert_currency_passed:
  "validation_check env (base_currency_of args) (to_currency_of args) (base_amount_of args) args
     = Inr None \<Longrightarrow>
   convert_currency env args =
     (case get_conversion_rate env (base_currency_of args) (to_currency_of args) of
        (Inl e, calls) \<Rightarrow> (Inl e, calls)
      | (Inr conversion_rate, calls) \<Rightarrow>
          (let response = [(''conversion_rate'', VJson conversion_rate),
                           (''user_input'', VArgs args)]
           in if (case args_get args ''amount'' of None \<Rightarrow> False | Some a \<Rightarrow> a \<noteq> [])
              then
                (bind (py_float env (base_amount_of args)) (\<lambda>x.
                 bind (py_mul env conversion_rate x) (\<lambda>converted_amount.
                 Inr (Dict (AList.update ''converted_amount''
                         (VFloat (float_round2 env converted_amount)) response)))),
                 calls)
              else (Inr (Dict response), calls)))"
  by (simp add: convert_currency_def)

lemma convert_currency_split:
  assumes "validation_check env (base_currency_of args) (to_currency_of args)
             (base_amount_of args) args = Inr None"
  shows "convert_currency env args =
     ((case fst (get_conversion_rate env (base_currency_of args) (to_currency_of args)) of
         Inl e \<Rightarrow> Inl e
       | Inr conversion_rate \<Rightarrow>
           if (case args_get args ''amount'' of None \<Rightarrow> False | Some a \<Rightarrow> a \<noteq> [])
           then bind (py_float env (base_amount_of args)) (\<lambda>x.
                bind (py_mul env conversion_rate x) (\<lambda>converted_amount.
                Inr (Dict [(''conversion_rate'', VJson conversion_rate),
                           (''user_input'', VArgs args),
                           (''converted_amount'', VFloat (float_round2 env converted_amount))])))
           else Inr (Dict [(''conversion_rate'', VJson conversion_rate),
                           (''user_input'', VArgs args)])),
      [provider_call env (base_currency_of args) (to_currency_of args)])"
proof -
  obtain res calls where g:
    "get_conversion_rate env (base_currency_of args) (to_currency_of args) = (res, calls)"
    by (cases "get_conversion_rate env (base_currency_of args) (to_currency_of args)")
  have c: "calls = [provider_call env (base_currency_of args) (to_currency_of args)]"
    using get_conversion_rate_calls [of env "base_currency_of args" "to_currency_of args"] g
    by simp
  show ?thesis
    by (cases res) (simp_all add: convert_currency_passed [OF assms] g c Let_def)
qed

lemma endpoint_rejected:
  assumes "validation_check env (base_currency_of args) (to_currency_of args)
             (base_amount_of args) args = Inr (Some (WithStatus d s))"
  shows "endpoint env args = Inr \<lparr>status = s, body = d\<rparr>" and "outbound_calls env args = []"
  using convert_currency_rejected [OF assms] by (simp_all add: endpoint_def outbound_calls_def)

lemma endpoint_lookup_failed:
  assumes "validation_check env (base_currency_of args) (to_currency_of args)
             (base_amount_of args) args = Inr None"
    and "fst (get_conversion_rate env (base_currency_of args) (to_currency_of args)) = Inl e"
  shows "endpoint env args = Inl e"
  using assms(2) by (simp add: endpoint_def convert_currency_split [OF assms(1)])

lemma outbound_calls_passed:
  assumes "validation_check env (base_currency_of args) (to_currency_of args)
             (base_amount_of args) args = Inr None"
  shows "outbound_calls env args = [provider_call env (base_currency_of args) (to_currency_of args)]"
  by (simp add: outbound_calls_def convert_currency_split [OF assms])

lemma endpoint_without_amount:
  assumes "validation_check env (base_currency_of args) (to_currency_of args)
             (base_amount_of args) args = Inr None"
    and "fst (get_conversion_rate env (base_currency_of args) (to_currency_of args)) = Inr rate"
    and "args_get args ''amount'' = None \<or> args_get args ''amount'' = Some []"
  shows "fst (convert_currency env args) =
           Inr (Dict [(''conversion_rate'', VJson rate), (''user_input'', VArgs args)])"
  using assms(2,3) by (auto simp add: convert_currency_split [OF assms(1)])

lemma endpoint_with_amount:
  assumes "validation_check env (base_currency_of args) (to_currency_of args)
             (base_amount_of args) args = Inr None"
    and "fst (get_conversion_rate env (base_currency_of args) (to_currency_of args)) = Inr rate"
    and "args_get args ''amount'' = Some a" and "a \<noteq> []"
  shows "fst (convert_currency env args) =
           bind (py_float env (PStr a)) (\<lambda>x.
           bind (py_mul env rate x) (\<lambda>converted_amount.
           Inr (Dict [(''conversion_rate'', VJson rate), (''user_input'', VArgs args),
                      (''converted_amount'', VFloat (float_round2 env converted_amount))])))"
  using assms(2,3,4) by (simp add: convert_currency_split [OF assms(1)] base_amount_of_def)

lemma body_has_converted_amount:
  assumes "endpoint env args = Inr resp" and "map_of (body resp) ''converted_amount'' \<noteq> None"
  shows "\<exists>a. args_get args ''amount'' = Some a \<and> a \<noteq> []"
proof (cases "validation_check env (base_currency_of args) (to_currency_of args)
                (base_amount_of args) args")
  case (Inl e)
  then show ?thesis
    using assms by (simp add: endpoint_def convert_currency_def)
next
  case (Inr v)
  show ?thesis
  proof (cases v)
    case None
    show ?thesis
      using assms
      by (auto simp: endpoint_def convert_currency_split [OF Inr [unfolded None]]
          split: sum.splits option.splits if_splits)
  next
    case (Some w)
    have "w = WithStatus (currency_error args) 400 \<or> w = WithStatus (amount_error args) 400"
      using Inr Some by (auto simp: validation_check_def split: if_splits sum.splits)
    then show ?thesis
      using assms convert_currency_rejected [OF Inr [unfolded Some]]
      by (auto simp: endpoint_def currency_error_def amount_error_def)
  qed
qed

lemma passed_variant:
  assumes a: "validation_check env (base_currency_of args) (to_currency_of args)
                (base_amount_of args) args = Inr None"
    and a': "validation_check env (base_currency_of args') (to_currency_of args')
                (base_amount_of args') args' = Inr None"
    and g: "get_conversion_rate env (base_currency_of args') (to_currency_of args') =
            get_conversion_rate env (base_currency_of args) (to_currency_of args)"
    and p: "provider_call env (base_currency_of args') (to_currency_of args') =
            provider_call env (base_currency_of args) (to_currency_of args)"
    and m: "args_get args' ''amount'' = args_get args ''amount''"
  shows "outbound_calls env args' = outbound_calls env args \<and>
         without_user_input (endpoint env args') = without_user_input (endpoint env args)"
proof -
  have bm: "base_amount_of args' = base_amount_of args"
    using m by (simp add: base_amount_of_def)
  have c: "outbound_calls env args' = outbound_calls env args"
    by (simp add: outbound_calls_def convert_currency_split [OF a] convert_currency_split [OF a'] p)
  show ?thesis
  proof (cases "fst (get_conversion_rate env (base_currency_of args) (to_currency_of args))")
    case (Inl e)
    then show ?thesis
      using c by (simp add: endpoint_def without_user_input_def
          convert_currency_split [OF a] convert_currency_split [OF a'] g)
  next
    case (Inr rate)
    show ?thesis
    proof (cases "case args_get args ''amount'' of None \<Rightarrow> False | Some a \<Rightarrow> a \<noteq> []")
      case False
      then show ?thesis
        using c Inr by (simp add: endpoint_def without_user_input_def
          convert_currency_split [OF a] convert_currency_split [OF a'] g m)
    next
      case True
      show ?thesis
      proof (cases "py_float env (base_amount_of args)")
        case (Inl e)
        then show ?thesis
          using c Inr True by (simp add: endpoint_def without_user_input_def
            convert_currency_split [OF a] convert_currency_split [OF a'] g m bm)
      next
        case x: (Inr x)
        show ?thesis
        proof (cases "py_mul env rate x")
          case (Inl e)
          then show ?thesis
            using c Inr True x by (simp add: endpoint_def without_user_input_def
              convert_currency_split [OF a] convert_currency_split [OF a'] g m bm)
        next
          case y: (Inr y)
          then show ?thesis
            using c Inr True x by (simp add: endpoint_def without_user_input_def
              convert_currency_split [OF a] convert_currency_split [OF a'] g m bm)
        qed
      qed
    qed
  qed
qed

lemma status_code_not_read:
  "endpoint (env\<lparr>requests_get := \<lambda>q. map_sum id (status_code_update f) (requests_get env q)\<rparr>) args =
   endpoint env args"
proof -
  let ?env = "env\<lparr>requests_get := \<lambda>q. map_sum id (status_code_update f) (requests_get env q)\<rparr>"
  have p: "provider_call ?env b t = provider_call env b t" for b t
    by (simp add: provider_call_def)
  have g: "get_conversion_rate ?env b t = get_conversion_rate env b t" for b t
    by (cases "requests_get env (provider_call env b t)")
      (simp_all add: get_conversion_rate_def p Let_def)
  have f: "py_float ?env m = py_float env m" for m
    by (simp add: py_float_def split: pyarg.splits)
  have v: "validation_check ?env b t m ui = validation_check env b t m ui" for b t m ui
    by (simp add: validation_check_def f)
  have m: "py_mul ?env r x = py_mul env r x" for r x
    by (cases r) (simp_all add: f)
  have "convert_currency ?env args = convert_currency env args"
    by (simp add: convert_currency_def v g f m Let_def
        cong: sum.case_cong option.case_cong prod.case_cong if_cong)
  then show ?thesis
    by (simp add: endpoint_def)
qed

lemma view_body_user_input:
  assumes "endpoint env args = Inr resp"
  shows "map_of (body resp) ''user_input'' = Some (VArgs args)"
proof (cases "validation_check env (base_currency_of args) (to_currency_of args)
                (base_amount_of args) args")
  case (Inl e)
  then show ?thesis
    using assms by (simp add: endpoint_def convert_currency_def)
next
  case (Inr r)
  show ?thesis
  proof (cases r)
    case None
    show ?thesis
      using assms
      by (auto simp: endpoint_def convert_currency_split [OF Inr [unfolded None]] bind_Inr
          split: sum.splits option.splits if_splits)
  next
    case (Some w)
    from validation_check_Some [OF Inr [unfolded Some], of args]
    have "w = WithStatus (currency_error args) 400 \<or> w = WithStatus (amount_error args) 400"
      by auto
    then show ?thesis
      using assms convert_currency_rejected [OF Inr [unfolded Some]]
      by (auto simp: endpoint_def currency_error_def amount_error_def)
  qed
qed

lemma multidict_items_distinct: "distinct (map fst args) \<Longrightarrow> multidict_items args = args"
  by (simp add: multidict_items_def)

lemma json_field_jsonify: "json_field (jsonify d) k = map_option to_json (map_of d k)"
  by (induction d) (auto simp: jsonify_def)

subsection \<open>Invalid currency codes\<close>

text \<open>
  Claim C1. When \<open>base-currency\<close> or \<open>to-currency\<close> is missing, empty, or a value
  whose upper-case form is not one of USD, GBP and EUR, the endpoint answers with status
  400 and the body of the fields \<open>error\<close>, \<open>notes\<close> and \<open>user_input\<close>, in that order
  and no other; the error and the notes are the same in the three cases.
\<close>

theorem invalid_currency_bad_request:
  assumes "k = ''base-currency'' \<or> k = ''to-currency''"
    and "args_get args k = None \<or>
         (\<exists>v. args_get args k = Some v \<and> (v = [] \<or> upper v \<notin> VALID_COUNTRIES))"
  shows "endpoint (env :: 'f env) args = Inr \<lparr>status = 400, body = currency_error args\<rparr> \<and>
         map fst (currency_error args :: 'f pydict) = [''error'', ''notes'', ''user_input'']"
proof -
  have e: "upper [] \<notin> VALID_COUNTRIES"
    by (simp add: upper_def VALID_COUNTRIES_def)
  have "upper (base_currency_of args) \<notin> VALID_COUNTRIES \<or>
        upper (to_currency_of args) \<notin> VALID_COUNTRIES"
    using assms e by (auto simp: base_currency_of_def to_currency_of_def)
  then have "endpoint env args = Inr \<lparr>status = 400, body = currency_error args\<rparr>"
    by (rule endpoint_rejected(1) [OF validation_check_currency])
  then show ?thesis
    by (simp add: currency_error_def)
qed

text \<open>The same at requests to the example environment.\<close>

theorem invalid_currency_bad_request_witness:
  "endpoint example_env [(''to-currency'', ''USD'')] =
     Inr \<lparr>status = 400, body = currency_error [(''to-currency'', ''USD'')]\<rparr> \<and>
   endpoint example_env [(''base-currency'', []), (''to-currency'', ''USD'')] =
     Inr \<lparr>status = 400, body = currency_error [(''base-currency'', []), (''to-currency'', ''USD'')]\<rparr> \<and>
   endpoint example_env [(''base-currency'', ''GBP''), (''to-currency'', ''XXX'')] =
     Inr \<lparr>status = 400, body = currency_error [(''base-currency'', ''GBP''), (''to-currency'', ''XXX'')]\<rparr>"
proof -
  have x: "upper ''XXX'' \<notin> VALID_COUNTRIES"
    by code_simp
  have a: "endpoint example_env [(''to-currency'', ''USD'')] =
     Inr \<lparr>status = 400, body = currency_error [(''to-currency'', ''USD'')]\<rparr>"
    using invalid_currency_bad_request [of "''base-currency''" "[(''to-currency'', ''USD'')]" example_env]
    by (simp add: args_get_def)
  have b: "endpoint example_env [(''base-currency'', []), (''to-currency'', ''USD'')] =
     Inr \<lparr>status = 400, body = currency_error [(''base-currency'', []), (''to-currency'', ''USD'')]\<rparr>"
    using invalid_currency_bad_request [of "''base-currency''" "[(''base-currency'', []), (''to-currency'', ''USD'')]" example_env]
    by (simp add: args_get_def)
  have c: "endpoint example_env [(''base-currency'', ''GBP''), (''to-currency'', ''XXX'')] =
     Inr \<lparr>status = 400, body = currency_error [(''base-currency'', ''GBP''), (''to-currency'', ''XXX'')]\<rparr>"
    using invalid_currency_bad_request [of "''to-currency''" "[(''base-currency'', ''GBP''), (''to-currency'', ''XXX'')]" example_env] x
    by (simp add: args_get_def)
  from a b c show ?thesis by simp
qed

subsection \<open>An amount that is not a number\<close>

text \<open>
  Claim C2. When both currency codes are valid and \<open>amount\<close> is present but not a float
  literal, the endpoint answers with status 400 and a body whose \<open>error\<close> and
  \<open>notes\<close> differ from those of the currency error, and whose \<open>user_input\<close> is the
  query parameters.
\<close>

theorem unparseable_amount_bad_request:
  assumes "upper (base_currency_of args) \<in> VALID_COUNTRIES"
    and "upper (to_currency_of args) \<in> VALID_COUNTRIES"
    and "args_get args ''amount'' = Some a"
    and "\<not> float_syntax a"
  shows "endpoint (env :: 'f env) args = Inr \<lparr>status = 400, body = amount_error args\<rparr> \<and>
         map_of (amount_error args :: 'f pydict) ''error'' \<noteq> map_of (currency_error args) ''error'' \<and>
         map_of (amount_error args :: 'f pydict) ''notes'' \<noteq> map_of (currency_error args) ''notes'' \<and>
         map_of (amount_error args :: 'f pydict) ''user_input'' = Some (VArgs args)"
proof -
  have "validation_check env (base_currency_of args) (to_currency_of args)
          (base_amount_of args) args = Inr (Some (WithStatus (amount_error args) 400))"
    using assms by (simp add: base_amount_of_def validation_check_amount)
  then have "endpoint env args = Inr \<lparr>status = 400, body = amount_error args\<rparr>"
    by (rule endpoint_rejected(1))
  then show ?thesis
    by (simp add: amount_error_def currency_error_def)
qed

text \<open>The same at requests to the example environment.\<close>

theorem unparseable_amount_bad_request_witness:
  "endpoint example_env
     [(''base-currency'', ''GBP''), (''to-currency'', ''USD''), (''amount'', ''notanumber'')] =
   Inr \<lparr>status = 400,
        body = [(''error'', VStr ''Invalid amount passed in''),
                (''notes'', VStr ''Make sure amount is a valid number.''),
                (''user_input'', VArgs [(''base-currency'', ''GBP''), (''to-currency'', ''USD''),
                                        (''amount'', ''notanumber'')])]\<rparr>"
proof -
  have h: "upper (base_currency_of
             [(''base-currency'', ''GBP''), (''to-currency'', ''USD''), (''amount'', ''notanumber'')])
           \<in> VALID_COUNTRIES"
    "upper (to_currency_of
             [(''base-currency'', ''GBP''), (''to-currency'', ''USD''), (''amount'', ''notanumber'')])
           \<in> VALID_COUNTRIES"
    "args_get [(''base-currency'', ''GBP''), (''to-currency'', ''USD''), (''amount'', ''notanumber'')]
       ''amount'' = Some ''notanumber''"
    "\<not> float_syntax ''notanumber''"
    by code_simp+
  show ?thesis
    using unparseable_amount_bad_request [OF h, of example_env]
    by (simp add: amount_error_def)
qed

subsection \<open>The converted amount\<close>

text \<open>
  Claim C3. With valid currency codes and a rate from the provider, a request whose
  \<open>amount\<close> is supplied and is a float literal gets status 200 and the body of
  \<open>conversion_rate\<close>, \<open>user_input\<close> and \<open>converted_amount\<close>, the last being
  \<open>round(conversion_rate * float(amount), 2)\<close>, where the product is Python's (for a
  float rate, the product of the two floats). A response to any request holds
  \<open>converted_amount\<close> only when the caller supplied \<open>amount\<close>.
\<close>

theorem converted_amount_when_supplied:
  assumes "upper (base_currency_of args) \<in> VALID_COUNTRIES"
    and "upper (to_currency_of args) \<in> VALID_COUNTRIES"
    and "args_get args ''amount'' = Some a"
    and "float_syntax a"
    and "fst (get_conversion_rate env (base_currency_of args) (to_currency_of args)) =
           Inr conversion_rate"
    and "py_mul env conversion_rate (float_value env a) = Inr product"
  shows "endpoint env args =
           Inr \<lparr>status = 200,
                body = [(''conversion_rate'', VJson conversion_rate),
                        (''user_input'', VArgs args),
                        (''converted_amount'', VFloat (float_round2 env product))]\<rparr> \<and>
         (\<forall>args' resp. endpoint env args' = Inr resp \<and>
                   map_of (body resp) ''converted_amount'' \<noteq> None \<longrightarrow>
                 args_get args' ''amount'' \<noteq> None)"
proof (intro conjI allI impI)
  have ne: "a \<noteq> []"
    using assms(4) float_syntax_empty by auto
  have v: "validation_check env (base_currency_of args) (to_currency_of args)
             (base_amount_of args) args = Inr None"
    using assms(1-4) by (simp add: base_amount_of_def validation_check_ok_str)
  show "endpoint env args =
          Inr \<lparr>status = 200,
               body = [(''conversion_rate'', VJson conversion_rate),
                       (''user_input'', VArgs args),
                       (''converted_amount'', VFloat (float_round2 env product))]\<rparr>"
    using assms(4,6) endpoint_with_amount [OF v assms(5) assms(3) ne]
    by (simp add: endpoint_def py_float_def)
next
  fix args' resp
  assume "endpoint env args' = Inr resp \<and> map_of (body resp) ''converted_amount'' \<noteq> None"
  then show "args_get args' ''amount'' \<noteq> None"
    using body_has_converted_amount [of env args' resp] by auto
qed

text \<open>The same at requests to the example environment.\<close>

theorem converted_amount_when_supplied_witness:
  "endpoint example_env [(''base-currency'', ''GBP''), (''to-currency'', ''USD''), (''amount'', ''123'')] =
     Inr \<lparr>status = 200,
          body = [(''conversion_rate'', VJson (JFloat (841409 / 1000000))),
                  (''user_input'', VArgs [(''base-currency'', ''GBP''), (''to-currency'', ''USD''),
                                          (''amount'', ''123'')]),
                  (''converted_amount'', VFloat (10349 / 100))]\<rparr> \<and>
   args_get [(''base-currency'', ''GBP''), (''to-currency'', ''USD''), (''amount'', ''123'')]
     ''amount'' \<noteq> None"
proof -
  let ?args = "[(''base-currency'', ''GBP''), (''to-currency'', ''USD''), (''amount'', ''123'')]"
  have h: "upper (base_currency_of ?args) \<in> VALID_COUNTRIES"
    "upper (to_currency_of ?args) \<in> VALID_COUNTRIES"
    "args_get ?args ''amount'' = Some ''123''" "float_syntax ''123''"
    by code_simp+
  have r: "fst (get_conversion_rate example_env (base_currency_of ?args) (to_currency_of ?args)) =
             Inr (JFloat (841409 / 1000000))"
    by code_simp
  have m: "py_mul example_env (JFloat (841409 / 1000000)) (float_value example_env ''123'') =
             Inr (103493307 / 1000000)"
    by (simp add: example_env_def)
  have f: "float_round2 example_env (103493307 / 1000000) = 10349 / 100"
    by (simp add: example_env_def)
  have e: "endpoint example_env ?args =
     Inr \<lparr>status = 200,
          body = [(''conversion_rate'', VJson (JFloat (841409 / 1000000))),
                  (''user_input'', VArgs ?args),
                  (''converted_amount'', VFloat (10349 / 100))]\<rparr>"
    using converted_amount_when_supplied [OF h r m] f by simp
  have "args_get ?args ''amount'' \<noteq> None"
    using converted_amount_when_supplied [OF h r m] e by simp
  with e show ?thesis
    by simp
qed

subsection \<open>Valid codes and no amount\<close>

text \<open>
  Claim C4. For every pair of codes among USD, GBP and EUR, a request with these codes and
  no \<open>amount\<close>, the provider giving a rate, gets the body of \<open>conversion_rate\<close> and
  \<open>user_input\<close> only: the view returns the dict with no status of its own, which is
  sent with status 200.
\<close>

theorem valid_pair_without_amount_ok:
  assumes "base_currency \<in> VALID_COUNTRIES" and "to_currency \<in> VALID_COUNTRIES"
    and "args_get args ''base-currency'' = Some base_currency"
    and "args_get args ''to-currency'' = Some to_currency"
    and "args_get args ''amount'' = None"
    and "fst (get_conversion_rate env base_currency to_currency) = Inr conversion_rate"
  shows "fst (convert_currency env args) =
           Inr (Dict [(''conversion_rate'', VJson conversion_rate), (''user_input'', VArgs args)]) \<and>
         endpoint env args =
           Inr \<lparr>status = 200,
                body = [(''conversion_rate'', VJson conversion_rate),
                        (''user_input'', VArgs args)]\<rparr>"
proof -
  have b: "base_currency_of args = base_currency" "to_currency_of args = to_currency"
    "base_amount_of args = PInt 1"
    using assms(3,4,5) by (simp_all add: base_currency_of_def to_currency_of_def base_amount_of_def)
  have v: "validation_check env (base_currency_of args) (to_currency_of args)
             (base_amount_of args) args = Inr None"
    using assms(1,2) by (simp add: b validation_check_ok_default upper_valid)
  have "fst (convert_currency env args) =
          Inr (Dict [(''conversion_rate'', VJson conversion_rate), (''user_input'', VArgs args)])"
    using endpoint_without_amount [OF v] assms(5,6) by (simp add: b)
  then show ?thesis
    by (simp add: endpoint_def)
qed

text \<open>The same at requests to the example environment.\<close>

theorem valid_pair_without_amount_ok_witness:
  "endpoint example_env [(''base-currency'', ''EUR''), (''to-currency'', ''GBP'')] =
     Inr \<lparr>status = 200,
          body = [(''conversion_rate'', VJson (JFloat (841409 / 1000000))),
                  (''user_input'', VArgs [(''base-currency'', ''EUR''), (''to-currency'', ''GBP'')])]\<rparr>"
proof -
  let ?args = "[(''base-currency'', ''EUR''), (''to-currency'', ''GBP'')]"
  have h: "''EUR'' \<in> VALID_COUNTRIES" "''GBP'' \<in> VALID_COUNTRIES"
    "args_get ?args ''base-currency'' = Some ''EUR''"
    "args_get ?args ''to-currency'' = Some ''GBP''"
    "args_get ?args ''amount'' = None"
    by code_simp+
  have r: "fst (get_conversion_rate example_env ''EUR'' ''GBP'') = Inr (JFloat (841409 / 1000000))"
    by (simp add: get_conversion_rate_def provider_call_def example_env_def example_answer_def
        query_string_def lookup_rate_def upper_def upper_char_def)
  show ?thesis
    using valid_pair_without_amount_ok [OF h r] by simp
qed

subsection \<open>Case of the currency codes\<close>

text \<open>
  Claim C5. Two requests whose base codes are equal up to the case of their letters, whose
  target codes are so too, and whose \<open>amount\<close> is the same, have the same validation
  outcome, the same rate lookup with the same outbound call, and the same result of the
  endpoint once the echoed \<open>user_input\<close> is left out.
\<close>

theorem currency_codes_case_insensitive:
  assumes "map lower_char (base_currency_of args') = map lower_char (base_currency_of args)"
    and "map lower_char (to_currency_of args') = map lower_char (to_currency_of args)"
    and "args_get args' ''amount'' = args_get args ''amount''"
  shows "validation_check env (base_currency_of args') (to_currency_of args')
           (base_amount_of args') ui =
         validation_check env (base_currency_of args) (to_currency_of args)
           (base_amount_of args) ui \<and>
         get_conversion_rate env (base_currency_of args') (to_currency_of args') =
         get_conversion_rate env (base_currency_of args) (to_currency_of args) \<and>
         outbound_calls env args' = outbound_calls env args \<and>
         without_user_input (endpoint env args') = without_user_input (endpoint env args)"
proof -
  let ?b = "base_currency_of args" and ?t = "to_currency_of args" and ?m = "base_amount_of args"
  have u: "upper (base_currency_of args') = upper ?b" "upper (to_currency_of args') = upper ?t"
    by (rule lower_upper [OF assms(1)], rule lower_upper [OF assms(2)])
  have m: "base_amount_of args' = ?m"
    using assms(3) by (simp add: base_amount_of_def)
  have v: "validation_check env (base_currency_of args') (to_currency_of args')
             (base_amount_of args') x = validation_check env ?b ?t ?m x" for x
    using validation_check_upper [OF u] by (simp add: m)
  have g: "get_conversion_rate env (base_currency_of args') (to_currency_of args') =
           get_conversion_rate env ?b ?t"
    using u by (rule get_conversion_rate_upper)
  have p: "provider_call env (base_currency_of args') (to_currency_of args') =
           provider_call env ?b ?t"
    using u by (simp add: provider_call_def)
  have "outbound_calls env args' = outbound_calls env args \<and>
        without_user_input (endpoint env args') = without_user_input (endpoint env args)"
  proof (cases "validation_check env ?b ?t ?m args")
    case (Inl e)
    then have "validation_check env (base_currency_of args') (to_currency_of args')
                 (base_amount_of args') args' = Inl e"
      using validation_check_Inl [of env ?b ?t ?m args e args'] by (simp add: v)
    with Inl show ?thesis
      by (simp add: outbound_calls_def endpoint_def convert_currency_def)
  next
    case (Inr r)
    show ?thesis
    proof (cases r)
      case None
      have a: "validation_check env ?b ?t ?m args = Inr None"
        using Inr None by simp
      have a': "validation_check env (base_currency_of args') (to_currency_of args')
                  (base_amount_of args') args' = Inr None"
        using validation_check_None [OF a, of args'] by (simp add: v)
      show ?thesis
        using a a' g p assms(3) by (rule passed_variant)
    next
      case (Some w)
      have a: "validation_check env ?b ?t ?m args = Inr (Some w)"
        using Inr Some by simp
      from validation_check_Some [OF a, of args'] show ?thesis
      proof
        assume c: "w = WithStatus (currency_error args) 400 \<and>
          validation_check env ?b ?t ?m args' = Inr (Some (WithStatus (currency_error args') 400))"
        then have a': "validation_check env (base_currency_of args') (to_currency_of args')
                  (base_amount_of args') args' = Inr (Some (WithStatus (currency_error args') 400))"
          by (simp add: v)
        show ?thesis
          using c
          by (simp add: outbound_calls_def endpoint_def without_user_input_def
              convert_currency_rejected [OF a] convert_currency_rejected [OF a']
              currency_error_def)
      next
        assume c: "w = WithStatus (amount_error args) 400 \<and>
          validation_check env ?b ?t ?m args' = Inr (Some (WithStatus (amount_error args') 400))"
        then have a': "validation_check env (base_currency_of args') (to_currency_of args')
                  (base_amount_of args') args' = Inr (Some (WithStatus (amount_error args') 400))"
          by (simp add: v)
        show ?thesis
          using c
          by (simp add: outbound_calls_def endpoint_def without_user_input_def
              convert_currency_rejected [OF a] convert_currency_rejected [OF a']
              amount_error_def)
      qed
    qed
  qed
  with v g show ?thesis
    by simp
qed

text \<open>The same at requests to the example environment.\<close>

theorem currency_codes_case_insensitive_witness:
  "outbound_calls example_env
     [(''base-currency'', ''gbp''), (''to-currency'', ''Usd''), (''amount'', ''123'')] =
   outbound_calls example_env
     [(''base-currency'', ''GBP''), (''to-currency'', ''USD''), (''amount'', ''123'')] \<and>
   without_user_input (endpoint example_env
     [(''base-currency'', ''gbp''), (''to-currency'', ''Usd''), (''amount'', ''123'')]) =
   without_user_input (endpoint example_env
     [(''base-currency'', ''GBP''), (''to-currency'', ''USD''), (''amount'', ''123'')])"
proof -
  let ?args' = "[(''base-currency'', ''gbp''), (''to-currency'', ''Usd''), (''amount'', ''123'')]"
  let ?args = "[(''base-currency'', ''GBP''), (''to-currency'', ''USD''), (''amount'', ''123'')]"
  have h: "map lower_char (base_currency_of ?args') = map lower_char (base_currency_of ?args)"
    "map lower_char (to_currency_of ?args') = map lower_char (to_currency_of ?args)"
    "args_get ?args' ''amount'' = args_get ?args ''amount''"
    by code_simp+
  show ?thesis
    using currency_codes_case_insensitive [OF h, of example_env] by simp
qed

subsection \<open>The echoed input\<close>

text \<open>
  Claim C6 says that \<open>user_input\<close> in every response echoes exactly the query
  parameters supplied. When a key is repeated in the query string, the response holds
  only the first of its values, with status 400 and with status 200:
\<close>

theorem repeated_parameter_not_echoed:
  "map_sum id (\<lambda>w. (wire_status w, json_field (wire_body w) ''user_input''))
     (served example_env
        [(''base-currency'', ''XXX''), (''base-currency'', ''USD''), (''to-currency'', ''EUR'')]) =
   Inr (400, Some (JObj [(''base-currency'', JStr ''XXX''), (''to-currency'', JStr ''EUR'')])) \<and>
   map_sum id (\<lambda>w. (wire_status w, json_field (wire_body w) ''user_input''))
     (served example_env
        [(''base-currency'', ''GBP''), (''to-currency'', ''USD''), (''amount'', ''5''),
         (''amount'', ''x'')]) =
   Inr (200, Some (JObj [(''base-currency'', JStr ''GBP''), (''to-currency'', JStr ''USD''),
                         (''amount'', JStr ''5'')]))"
  by code_simp

text \<open>
  Claim C6, amended. In every response of the endpoint, with status 200 or 400, the field
  \<open>user_input\<close> is an object that holds every key of the query string once, with the
  first value supplied for it, which is the value the endpoint reads. When no key is
  repeated, these are the query parameters as they came.
\<close>

theorem user_input_first_values:
  assumes "served env args = Inr w"
  shows "json_field (wire_body w) ''user_input'' =
           Some (JObj (map (\<lambda>(k, v). (k, JStr v)) (multidict_items args))) \<and>
         distinct (map fst (multidict_items args)) \<and>
         map_of (multidict_items args) = map_of args \<and>
         (distinct (map fst args) \<longrightarrow> multidict_items args = args)"
proof -
  obtain r where r: "endpoint env args = Inr r"
    and w: "w = \<lparr>wire_status = status r, wire_body = jsonify (body r)\<rparr>"
    using assms by (auto simp: served_def split: sum.splits)
  have u: "map_of (body r) ''user_input'' = Some (VArgs args)"
    using r by (rule view_body_user_input)
  have "json_field (wire_body w) ''user_input'' =
          Some (JObj (map (\<lambda>(k, v). (k, JStr v)) (multidict_items args)))"
    by (simp add: w json_field_jsonify u)
  moreover have "distinct (map fst (multidict_items args))"
    by (simp add: multidict_items_def)
  moreover have "map_of (multidict_items args) = map_of args"
    by (simp add: multidict_items_def AList.map_of_clearjunk)
  ultimately show ?thesis
    using multidict_items_distinct [of args] by simp
qed

text \<open>The same at requests to the example environment.\<close>

theorem user_input_first_values_witness:
  "map_sum id (\<lambda>w. json_field (wire_body w) ''user_input'')
     (served example_env [(''base-currency'', ''EUR''), (''to-currency'', ''GBP'')]) =
   Inr (Some (JObj [(''base-currency'', JStr ''EUR''), (''to-currency'', JStr ''GBP'')])) \<and>
   map_sum id (\<lambda>w. json_field (wire_body w) ''user_input'')
     (served example_env [(''base-currency'', ''XXX''), (''to-currency'', ''USD'')]) =
   Inr (Some (JObj [(''base-currency'', JStr ''XXX''), (''to-currency'', JStr ''USD'')]))"
proof -
  let ?a = "[(''base-currency'', ''EUR''), (''to-currency'', ''GBP'')]"
  let ?b = "[(''base-currency'', ''XXX''), (''to-currency'', ''USD'')]"
  obtain v where v: "served example_env ?a = Inr v"
    by (cases "served example_env ?a") (simp_all add: served_def endpoint_def, code_simp)
  obtain w where w: "served example_env ?b = Inr w"
    by (cases "served example_env ?b") (simp_all add: served_def endpoint_def, code_simp)
  have d: "distinct (map fst ?a)" "distinct (map fst ?b)"
    by simp_all
  show ?thesis
    using user_input_first_values [OF v] user_input_first_values [OF w] d
    by (simp add: v w)
qed

subsection \<open>Outbound calls\<close>

text \<open>
  Claim C7 says that every request makes exactly one outbound call. A request that
  validation rejects makes none:
\<close>

theorem rejected_request_makes_no_call:
  "length (outbound_calls example_env [(''base-currency'', ''XXX''), (''to-currency'', ''USD'')]) \<noteq> 1"
  by code_simp

text \<open>
  Claim C7, amended. A request that passes validation makes exactly one outbound call,
  whatever the provider answers; any other request makes none. The calls of a request
  depend on nothing but the environment and the request: no result is kept from one
  request to the next.
\<close>

theorem one_call_when_validated:
  "outbound_calls env args =
     (if validation_check env (base_currency_of args) (to_currency_of args)
           (base_amount_of args) args = Inr None
      then [provider_call env (base_currency_of args) (to_currency_of args)]
      else [])"
proof (cases "validation_check env (base_currency_of args) (to_currency_of args)
                (base_amount_of args) args")
  case (Inl e)
  then show ?thesis
    by (simp add: outbound_calls_def convert_currency_def)
next
  case (Inr r)
  show ?thesis
  proof (cases r)
    case None
    then show ?thesis
      using Inr outbound_calls_passed [of env args] by simp
  next
    case (Some w)
    then show ?thesis
      using Inr convert_currency_rejected [of env args w] by (simp add: outbound_calls_def)
  qed
qed

text \<open>The same at requests to the example environment.\<close>

theorem one_call_when_validated_witness:
  "outbound_calls (answering (Inl RequestException))
     [(''base-currency'', ''gbp''), (''to-currency'', ''usd'')] =
     [\<lparr>http_method = ''GET'', url = ''https://api.currencyapi.com/v3/latest'',
       params = [(''apikey'', Single ''key''), (''base_currency'', Single ''GBP''),
                 (''currencies'', Multiple [''USD''])]\<rparr>] \<and>
   endpoint (answering (Inl RequestException))
     [(''base-currency'', ''gbp''), (''to-currency'', ''usd'')] = Inl RequestException \<and>
   outbound_calls example_env
     [(''base-currency'', ''gbp''), (''to-currency'', ''usd''), (''amount'', ''x'')] = []"
proof -
  let ?env = "answering (Inl RequestException)"
  let ?a = "[(''base-currency'', ''gbp''), (''to-currency'', ''usd'')]"
  let ?b = "[(''base-currency'', ''gbp''), (''to-currency'', ''usd''), (''amount'', ''x'')]"
  have v: "validation_check ?env (base_currency_of ?a) (to_currency_of ?a)
             (base_amount_of ?a) ?a = Inr None"
    by code_simp
  have w: "validation_check example_env (base_currency_of ?b) (to_currency_of ?b)
             (base_amount_of ?b) ?b \<noteq> Inr None"
    by code_simp
  have p: "provider_call ?env (base_currency_of ?a) (to_currency_of ?a) =
     \<lparr>http_method = ''GET'', url = ''https://api.currencyapi.com/v3/latest'',
       params = [(''apikey'', Single ''key''), (''base_currency'', Single ''GBP''),
                 (''currencies'', Multiple [''USD''])]\<rparr>"
    by code_simp
  have e: "endpoint ?env ?a = Inl RequestException"
    by code_simp
  show ?thesis
    using one_call_when_validated [of ?env ?a] one_call_when_validated [of example_env ?b] v w p e
    by simp
qed

subsection \<open>Failures of the provider\<close>

text \<open>
  Claim C8 says that a non-200 answer of the provider ends the request with an unhandled
  exception. The status code is never read: here an answer with status 500, its body
  holding the rate, gets the response with status 200 that the same body gets with an
  answer of status 200:
\<close>

theorem error_status_served_as_200:
  "map_sum id status_code
     (requests_get error_status_env (provider_call error_status_env ''GBP'' ''USD'')) = Inr 500 \<and>
   endpoint error_status_env [(''base-currency'', ''GBP''), (''to-currency'', ''USD'')] =
     Inr \<lparr>status = 200,
          body = [(''conversion_rate'', VJson (JFloat (841409 / 1000000))),
                  (''user_input'', VArgs [(''base-currency'', ''GBP''), (''to-currency'', ''USD'')])]\<rparr>"
  by code_simp

text \<open>
  Claim C8, amended. For a request that passes validation: when the provider cannot be
  reached, the request ends with that exception; when the body of the answer is not JSON,
  with \<open>JSONDecodeError\<close>; when the decoded body does not hold
  \<open>data.CODE.value\<close> for the target code in upper case, with an exception too. None of
  them is caught, so there is no 400 and no 200 body. The status code of the answer has no
  influence on the result: an answer with any other status is handled exactly as an
  answer with status 200 and the same body.
\<close>

theorem upstream_failure_propagates:
  assumes "validation_check env (base_currency_of args) (to_currency_of args)
             (base_amount_of args) args = Inr None"
  shows "(\<forall>e. requests_get env (provider_call env (base_currency_of args) (to_currency_of args)) =
                Inl e \<longrightarrow> endpoint env args = Inl e) \<and>
         (\<forall>up. requests_get env (provider_call env (base_currency_of args) (to_currency_of args)) =
                Inr up \<and> json_body up = None \<longrightarrow> endpoint env args = Inl JSONDecodeError) \<and>
         (\<forall>up j. requests_get env (provider_call env (base_currency_of args) (to_currency_of args)) =
                Inr up \<and> json_body up = Some j \<and>
                \<not> (\<exists>items ditems citems v. j = JObj items \<and>
                      map_of items ''data'' = Some (JObj ditems) \<and>
                      map_of ditems (upper (to_currency_of args)) = Some (JObj citems) \<and>
                      map_of citems ''value'' = Some v) \<longrightarrow>
                (\<exists>e. endpoint env args = Inl e)) \<and>
         (\<forall>f. endpoint (env\<lparr>requests_get :=
                   \<lambda>q. map_sum id (status_code_update f) (requests_get env q)\<rparr>) args =
              endpoint env args)"
proof (intro conjI allI impI)
  fix e
  assume "requests_get env (provider_call env (base_currency_of args) (to_currency_of args)) = Inl e"
  then have "fst (get_conversion_rate env (base_currency_of args) (to_currency_of args)) = Inl e"
    by (simp add: get_conversion_rate_fst)
  with assms show "endpoint env args = Inl e"
    by (rule endpoint_lookup_failed)
next
  fix up
  assume "requests_get env (provider_call env (base_currency_of args) (to_currency_of args)) =
            Inr up \<and> json_body up = None"
  then have "fst (get_conversion_rate env (base_currency_of args) (to_currency_of args)) =
               Inl JSONDecodeError"
    by (simp add: get_conversion_rate_fst)
  with assms show "endpoint env args = Inl JSONDecodeError"
    by (rule endpoint_lookup_failed)
next
  fix up j
  assume h: "requests_get env (provider_call env (base_currency_of args) (to_currency_of args)) =
            Inr up \<and> json_body up = Some j \<and>
            \<not> (\<exists>items ditems citems v. j = JObj items \<and>
                  map_of items ''data'' = Some (JObj ditems) \<and>
                  map_of ditems (upper (to_currency_of args)) = Some (JObj citems) \<and>
                  map_of citems ''value'' = Some v)"
  then obtain e where "lookup_rate j (upper (to_currency_of args)) = Inl e"
    using lookup_rate_fails [of j "upper (to_currency_of args)"] by blast
  with h have "fst (get_conversion_rate env (base_currency_of args) (to_currency_of args)) = Inl e"
    by (simp add: get_conversion_rate_fst)
  with assms have "endpoint env args = Inl e"
    by (rule endpoint_lookup_failed)
  then show "\<exists>e. endpoint env args = Inl e" ..
next
  fix f
  show "endpoint (env\<lparr>requests_get :=
                   \<lambda>q. map_sum id (status_code_update f) (requests_get env q)\<rparr>) args =
        endpoint env args"
    by (rule status_code_not_read)
qed

text \<open>The same at requests to the example environment.\<close>

theorem upstream_failure_propagates_witness:
  "endpoint (answering (Inl RequestException))
     [(''base-currency'', ''GBP''), (''to-currency'', ''USD'')] = Inl RequestException \<and>
   endpoint (answering (Inr \<lparr>status_code = 502, json_body = None\<rparr>))
     [(''base-currency'', ''GBP''), (''to-currency'', ''USD'')] = Inl JSONDecodeError \<and>
   isl (endpoint (answering (Inr \<lparr>status_code = 429,
                                    json_body = Some (JObj [(''message'', JStr ''Rate limit'')])\<rparr>))
     [(''base-currency'', ''GBP''), (''to-currency'', ''USD'')])"
proof -
  let ?a = "[(''base-currency'', ''GBP''), (''to-currency'', ''USD'')]"
  let ?msg = "JObj [(''message'', JStr ''Rate limit'')] :: real json"
  have v: "validation_check (answering r) (base_currency_of ?a) (to_currency_of ?a)
             (base_amount_of ?a) ?a = Inr None" for r
    by (simp add: base_currency_of_def to_currency_of_def base_amount_of_def args_get_def
        validation_check_ok_default upper_valid VALID_COUNTRIES_def)
  have g: "requests_get (answering r) q = r" for r q
    by (simp add: answering_def)
  have n: "\<not> (\<exists>items ditems citems v. ?msg = JObj items \<and>
               map_of items ''data'' = Some (JObj ditems) \<and>
               map_of ditems (upper (to_currency_of ?a)) = Some (JObj citems) \<and>
               map_of citems ''value'' = Some v)"
    by simp
  have "\<exists>e. endpoint (answering (Inr \<lparr>status_code = 429, json_body = Some ?msg\<rparr>)) ?a = Inl e"
    using upstream_failure_propagates [OF v, of "Inr \<lparr>status_code = 429, json_body = Some ?msg\<rparr>"] n
    by (simp add: g)
  then have "isl (endpoint (answering (Inr \<lparr>status_code = 429, json_body = Some ?msg\<rparr>)) ?a)"
    by auto
  then show ?thesis
    using upstream_failure_propagates [OF v, of "Inl RequestException"]
      upstream_failure_propagates [OF v, of "Inr \<lparr>status_code = 502, json_body = None\<rparr>"]
    by (simp add: g)
qed

subsection \<open>The call to the provider and the rate\<close>

text \<open>
  Claim C9. A request that passes validation makes one call: a GET to the latest-rates
  URL with the parameters \<open>apikey\<close> (the configured key), \<open>base_currency\<close> (the base
  code in upper case) and \<open>currencies\<close> (the target code in upper case) and no other.
  When the body of the answer holds \<open>data.CODE.value\<close> for the target code in upper
  case, that value is the rate returned, and the \<open>conversion_rate\<close> of the response.
\<close>

theorem provider_call_and_rate:
  assumes "validation_check env (base_currency_of args) (to_currency_of args)
             (base_amount_of args) args = Inr None"
    and "call = provider_call env (base_currency_of args) (to_currency_of args)"
  shows "outbound_calls env args = [call] \<and>
         http_method call = ''GET'' \<and>
         url call = ''https://api.currencyapi.com/v3/latest'' \<and>
         params call = [(''apikey'', Single (CURRENCYAPI_APIKEY env)),
                        (''base_currency'', Single (upper (base_currency_of args))),
                        (''currencies'', Multiple [upper (to_currency_of args)])] \<and>
         query_string call = [(''apikey'', CURRENCYAPI_APIKEY env),
                              (''base_currency'', upper (base_currency_of args)),
                              (''currencies'', upper (to_currency_of args))] \<and>
         (\<forall>up items ditems citems v.
            requests_get env call = Inr up \<and> json_body up = Some (JObj items) \<and>
            map_of items ''data'' = Some (JObj ditems) \<and>
            map_of ditems (upper (to_currency_of args)) = Some (JObj citems) \<and>
            map_of citems ''value'' = Some v \<longrightarrow>
            fst (get_conversion_rate env (base_currency_of args) (to_currency_of args)) = Inr v \<and>
            (\<forall>resp. endpoint env args = Inr resp \<longrightarrow>
               status resp = 200 \<and> map_of (body resp) ''conversion_rate'' = Some (VJson v)))"
proof (intro conjI allI impI)
  show "outbound_calls env args = [call]"
    using outbound_calls_passed [OF assms(1)] assms(2) by simp
  show "http_method call = ''GET''" "url call = ''https://api.currencyapi.com/v3/latest''"
    "params call = [(''apikey'', Single (CURRENCYAPI_APIKEY env)),
                    (''base_currency'', Single (upper (base_currency_of args))),
                    (''currencies'', Multiple [upper (to_currency_of args)])]"
    "query_string call = [(''apikey'', CURRENCYAPI_APIKEY env),
                          (''base_currency'', upper (base_currency_of args)),
                          (''currencies'', upper (to_currency_of args))]"
    by (simp_all add: assms(2) provider_call_def query_string_def)
next
  fix up items ditems citems v
  assume h: "requests_get env call = Inr up \<and> json_body up = Some (JObj items) \<and>
            map_of items ''data'' = Some (JObj ditems) \<and>
            map_of ditems (upper (to_currency_of args)) = Some (JObj citems) \<and>
            map_of citems ''value'' = Some v"
  then have l: "lookup_rate (JObj items) (upper (to_currency_of args)) = Inr v"
    by (simp add: lookup_rate_value)
  show r: "fst (get_conversion_rate env (base_currency_of args) (to_currency_of args)) = Inr v"
    using h l by (simp add: get_conversion_rate_fst assms(2) [symmetric])
  fix resp
  assume e: "endpoint env args = Inr resp"
  show "status resp = 200" "map_of (body resp) ''conversion_rate'' = Some (VJson v)"
    using e
    by (auto simp: endpoint_def convert_currency_split [OF assms(1)] r bind_Inr
        split: if_splits sum.splits)
qed

text \<open>The same at requests to the example environment.\<close>

theorem provider_call_and_rate_witness:
  "outbound_calls example_env
     [(''base-currency'', ''eur''), (''to-currency'', ''gbp''), (''amount'', ''123'')] =
     [\<lparr>http_method = ''GET'', url = ''https://api.currencyapi.com/v3/latest'',
       params = [(''apikey'', Single ''key''), (''base_currency'', Single ''EUR''),
                 (''currencies'', Multiple [''GBP''])]\<rparr>] \<and>
   query_string \<lparr>http_method = ''GET'', url = ''https://api.currencyapi.com/v3/latest'',
       params = [(''apikey'', Single ''key''), (''base_currency'', Single ''EUR''),
                 (''currencies'', Multiple [''GBP''])]\<rparr> =
     [(''apikey'', ''key''), (''base_currency'', ''EUR''), (''currencies'', ''GBP'')] \<and>
   fst (get_conversion_rate example_env ''eur'' ''gbp'') = Inr (JFloat (841409 / 1000000))"
proof -
  let ?args = "[(''base-currency'', ''eur''), (''to-currency'', ''gbp''), (''amount'', ''123'')]"
  let ?call = "\<lparr>http_method = ''GET'', url = ''https://api.currencyapi.com/v3/latest'',
       params = [(''apikey'', Single ''key''), (''base_currency'', Single ''EUR''),
                 (''currencies'', Multiple [''GBP''])]\<rparr>"
  have v: "validation_check example_env (base_currency_of ?args) (to_currency_of ?args)
             (base_amount_of ?args) ?args = Inr None"
    by code_simp
  have c: "?call = provider_call example_env (base_currency_of ?args) (to_currency_of ?args)"
    by code_simp
  have b: "base_currency_of ?args = ''eur''" "to_currency_of ?args = ''gbp''"
    "upper ''eur'' = ''EUR''" "upper ''gbp'' = ''GBP''" "CURRENCYAPI_APIKEY example_env = ''key''"
    by code_simp+
  have u: "requests_get example_env ?call =
             Inr \<lparr>status_code = 200,
                  json_body = Some (JObj
                    [(''meta'', JObj [(''last_updated_at'', JStr ''2022-11-20T23:59:59Z'')]),
                     (''data'', JObj [(''GBP'', JObj [(''code'', JStr ''GBP''),
                                               (''value'', JFloat (841409 / 1000000))])])])\<rparr>"
    by code_simp
  show ?thesis
    using provider_call_and_rate [OF v c] u by (simp add: b)
qed

subsection \<open>An empty amount\<close>

text \<open>
  Claim C10. When both currency codes are valid and \<open>amount\<close> is supplied as the empty
  string, the endpoint answers with status 400 and the invalid-amount body: the empty
  amount is read as one that does not parse, not as an absent one.
\<close>

theorem empty_amount_bad_request:
  assumes "upper (base_currency_of args) \<in> VALID_COUNTRIES"
    and "upper (to_currency_of args) \<in> VALID_COUNTRIES"
    and "args_get args ''amount'' = Some []"
  shows "endpoint env args = Inr \<lparr>status = 400, body = amount_error args\<rparr>"
proof -
  have "validation_check env (base_currency_of args) (to_currency_of args)
          (base_amount_of args) args = Inr (Some (WithStatus (amount_error args) 400))"
    using assms float_syntax_empty by (simp add: base_amount_of_def validation_check_amount)
  then show ?thesis
    by (rule endpoint_rejected(1))
qed

text \<open>The same at requests to the example environment.\<close>

theorem empty_amount_bad_request_witness:
  "endpoint example_env [(''base-currency'', ''GBP''), (''to-currency'', ''USD''), (''amount'', [])] =
   Inr \<lparr>status = 400,
        body = [(''error'', VStr ''Invalid amount passed in''),
                (''notes'', VStr ''Make sure amount is a valid number.''),
                (''user_input'', VArgs [(''base-currency'', ''GBP''), (''to-currency'', ''USD''),
                                        (''amount'', [])])]\<rparr>"
proof -
  have h: "upper (base_currency_of
             [(''base-currency'', ''GBP''), (''to-currency'', ''USD''), (''amount'', [])])
           \<in> VALID_COUNTRIES"
    "upper (to_currency_of
             [(''base-currency'', ''GBP''), (''to-currency'', ''USD''), (''amount'', [])])
           \<in> VALID_COUNTRIES"
    "args_get [(''base-currency'', ''GBP''), (''to-currency'', ''USD''), (''amount'', [])]
       ''amount'' = Some []"
    by code_simp+
  show ?thesis
    using empty_amount_bad_request [OF h, of example_env]
    by (simp add: amount_error_def)
qed

end
